theory Spec2Isabelle
  imports Main
begin

unbundle bit_operations_syntax

section \<open>Values, exceptions and the log\<close>

text \<open>
  Python integers are unbounded: they are modelled as \<open>int\<close>. A \<open>bytes\<close> object is
  the list of its elements, each read as an integer, as iterating over it does in
  Python. The constructor \<open>bytes([...])\<close> raises \<open>ValueError\<close> on an element outside
  \<open>range(0, 256)\<close>.
\<close>

type_synonym bytes = "int list"

datatype exn =
    RuntimeError string
  | ResponseError string
  | AttributeError string
  | ValueError string
  | TypeError string
  | StructError string
  | ZeroDivisionError
  | UnboundLocalError string
  | OSError string

text \<open>\<open>str(e)\<close>: the message of an exception.\<close>

fun str_exn :: "exn \<Rightarrow> string" where
  "str_exn (RuntimeError m) = m"
| "str_exn (ResponseError m) = m"
| "str_exn (AttributeError m) = m"
| "str_exn (ValueError m) = m"
| "str_exn (TypeError m) = m"
| "str_exn (StructError m) = m"
| "str_exn ZeroDivisionError = ''integer division or modulo by zero''"
| "str_exn (UnboundLocalError m) = m"
| "str_exn (OSError m) = m"

text \<open>
  The module-level logger \<open>log\<close>. An entry keeps the level and the message; where the
  source formats an object with \<open>%r\<close>, the entry keeps the format string.
\<close>

datatype log_entry = Debug string | Info string | Warning string | Error string

definition bytes_ctor :: "int list \<Rightarrow> exn + bytes" where
  "bytes_ctor xs =
     (if \<forall>x \<in> set xs. 0 \<le> x \<and> x < 256 then Inr xs
      else Inl (ValueError ''bytes must be in range(0, 256)''))"

text \<open>Slices \<open>xs[:i]\<close> and \<open>xs[i:]\<close>; a negative index counts from the end.\<close>

definition slice_to :: "'a list \<Rightarrow> int \<Rightarrow> 'a list" where
  "slice_to xs i = (if 0 \<le> i then take (nat i) xs else take (nat (int (length xs) + i)) xs)"

definition slice_from :: "'a list \<Rightarrow> int \<Rightarrow> 'a list" where
  "slice_from xs i = (if 0 \<le> i then drop (nat i) xs else drop (nat (int (length xs) + i)) xs)"

section \<open>Constants\<close>

definition DID_CORE :: int where "DID_CORE = 0x00"
definition DID_SPHERO :: int where "DID_SPHERO = 0x02"
definition CMD_PING :: int where "CMD_PING = 0x01"
definition CMD_SET_RGB :: int where "CMD_SET_RGB = 0x20"
definition CMD_ROLL :: int where "CMD_ROLL = 0x30"

section \<open>BoundCounter\<close>

record BoundCounter =
  counter_n :: int
  counter_mod :: int

definition BoundCounter_init :: BoundCounter where
  "BoundCounter_init = \<lparr>counter_n = 0, counter_mod = 0x0100\<rparr>"

definition BoundCounter_next :: "BoundCounter \<Rightarrow> (exn + int) \<times> BoundCounter" where
  "BoundCounter_next c =
     (if counter_mod c = 0 then (Inl ZeroDivisionError, c)
      else (let c' = c\<lparr>counter_n := (counter_n c + 1) mod counter_mod c\<rparr>
            in (Inr (counter_n c'), c')))"

section \<open>Checksum\<close>

text \<open>\<open>~sum(msg_bytes) % 256\<close>: the unary \<open>~\<close> binds tighter than \<open>%\<close>.\<close>

definition gen_checksum :: "int list \<Rightarrow> int" where
  "gen_checksum msg_bytes = (NOT (sum_list msg_bytes)) mod 256"

section \<open>String formatting\<close>

text \<open>The \<open>%\<close> formats of the error messages: \<open>%02x\<close> and \<open>%d\<close>.\<close>

definition digit_char :: "nat \<Rightarrow> char" where
  "digit_char d = ''0123456789abcdef'' ! d"

fun digits :: "nat \<Rightarrow> nat \<Rightarrow> string" where
  "digits b n =
     (if b < 2 \<or> n < b then [digit_char n] else digits b (n div b) @ [digit_char (n mod b)])"

definition fmt_02x :: "int \<Rightarrow> string" where
  "fmt_02x i =
     (if i < 0 then ''-'' @ digits 16 (nat (- i))
      else (let ds = digits 16 (nat i) in replicate (2 - length ds) CHR ''0'' @ ds))"

definition fmt_d :: "int \<Rightarrow> string" where
  "fmt_d i = (if i < 0 then ''-'' @ digits 10 (nat (- i)) else digits 10 (nat i))"

section \<open>The socket\<close>

text \<open>
  The Bluetooth socket is the external transport. Its model is a scripted peer that also
  records the calls made on it:
  \<^item> \<open>sent\<close>: the arguments of the \<open>send\<close> calls so far, in order;
  \<^item> \<open>rx\<close>: the chunks the peer delivers to the blocking \<open>recv\<close> calls to come. A call
    \<open>recv(n)\<close> returns at most \<open>n\<close> bytes of the first chunk and leaves the rest of it
    first in line. When no chunk is left, or the first chunk is empty, \<open>recv\<close> returns
    \<open>b''\<close>: the peer has closed;
  \<^item> \<open>nowait\<close>: the outcomes of the calls \<open>recv(n, MSG_DONTWAIT)\<close> to come, each the
    bytes pending at that moment or the exception raised; when none is left the call
    raises, as it does when nothing is pending;
  \<^item> \<open>drains\<close>: the number of \<open>recv(n, MSG_DONTWAIT)\<close> calls so far.
  A blocking \<open>recv\<close> or a \<open>send\<close> that raises is not part of the model.
\<close>

record socket =
  sent :: "bytes list"
  rx :: "bytes list"
  nowait :: "(exn + bytes) list"
  drains :: nat

definition socket_send :: "socket \<Rightarrow> bytes \<Rightarrow> int \<times> socket" where
  "socket_send k data = (int (length data), k\<lparr>sent := sent k @ [data]\<rparr>)"

definition socket_recv :: "socket \<Rightarrow> int \<Rightarrow> bytes \<times> socket" where
  "socket_recv k bufsize =
     (case rx k of
        [] \<Rightarrow> ([], k)
      | c # cs \<Rightarrow>
          (take (nat bufsize) c,
           k\<lparr>rx := (if drop (nat bufsize) c = [] then cs else drop (nat bufsize) c # cs)\<rparr>))"

definition socket_recv_nowait :: "socket \<Rightarrow> int \<Rightarrow> (exn + bytes) \<times> socket" where
  "socket_recv_nowait k bufsize =
     (case nowait k of
        [] \<Rightarrow> (Inl (OSError ''Resource temporarily unavailable''),
               k\<lparr>drains := Suc (drains k)\<rparr>)
      | r # rs \<Rightarrow>
          (map_sum id (take (nat bufsize)) r, k\<lparr>nowait := rs, drains := Suc (drains k)\<rparr>))"

section \<open>Connection\<close>

text \<open>
  The fields of the class, \<open>_socket\<close> being \<open>None\<close> until \<open>connect\<close> succeeds. The
  module-level logger is carried in the field \<open>log\<close>, since every function that logs
  has a connection at hand.
\<close>

record Connection =
  socket :: "socket option"
  address :: string
  port :: int
  buffer :: bytes
  log :: "log_entry list"

definition Connection_init :: "string \<Rightarrow> int \<Rightarrow> Connection" where
  "Connection_init addr p = \<lparr>socket = None, address = addr, port = p, buffer = [], log = []\<rparr>"

definition log_add :: "log_entry \<Rightarrow> Connection \<Rightarrow> Connection" where
  "log_add e c = c\<lparr>log := log c @ [e]\<rparr>"

text \<open>
  \<open>connect\<close>: the outcome of the attempt number \<open>i\<close> to open and connect a socket is
  \<open>net i\<close>, the connected socket or the \<open>OSError\<close> raised by \<open>s.connect\<close>. With
  \<open>repeat \<le> 0\<close> the loop body never runs and \<open>s.close()\<close> reads an unbound local.
\<close>

fun connect_loop :: "(nat \<Rightarrow> exn + socket) \<Rightarrow> nat \<Rightarrow> nat \<Rightarrow> Connection \<Rightarrow> bool \<times> Connection" where
  "connect_loop net i 0 c = (False, c)"
| "connect_loop net i (Suc r) c =
     (case net i of
        Inr s \<Rightarrow> (True, c\<lparr>socket := Some s\<rparr>)
      | Inl e \<Rightarrow> connect_loop net (Suc i) r (log_add (Warning (str_exn e)) c))"

definition Connection_connect ::
    "(nat \<Rightarrow> exn + socket) \<Rightarrow> Connection \<Rightarrow> int \<Rightarrow> (exn + bool) \<times> Connection" where
  "Connection_connect net c repeat =
     (case connect_loop net 0 (nat repeat) c of
        (connected, c') \<Rightarrow>
          if \<not> connected then
            (let c'' = log_add (Error ''Failed to connect after %d attempts.'') c'
             in if repeat \<le> 0 then (Inl (UnboundLocalError ''s''), c'') else (Inr False, c''))
          else
            (Inr True,
             log_add (Debug ''socket timeout: %r'') (log_add (Info ''Connected: %r'') c')))"

definition Connection_disconnect :: "Connection \<Rightarrow> (exn + unit) \<times> Connection" where
  "Connection_disconnect c =
     (case socket c of
        None \<Rightarrow> (Inl (RuntimeError ''Not connected''), c)
      | Some k \<Rightarrow> (Inr (), c\<lparr>socket := None\<rparr>))"

text \<open>\<open>send\<close>, called with \<open>flags=None\<close> throughout.\<close>

definition Connection_send :: "Connection \<Rightarrow> bytes \<Rightarrow> (exn + int) \<times> Connection" where
  "Connection_send c data =
     (case socket c of
        None \<Rightarrow> (Inl (RuntimeError ''Not connected''), c)
      | Some k \<Rightarrow> (case socket_send k data of (n, k') \<Rightarrow> (Inr n, c\<lparr>socket := Some k'\<rparr>)))"

text \<open>
  \<open>read\<close>: the \<open>while to_read > 0\<close> loop. On \<open>b''\<close> the source calls \<open>self.error\<close>, which
  the class does not define: the attribute lookup raises \<open>AttributeError\<close>, and the
  \<open>return\<close> after it is never reached. \<open>self._socket.recv\<close> on \<open>None\<close> raises
  \<open>AttributeError\<close> too.
\<close>

function read_loop :: "int \<Rightarrow> Connection \<Rightarrow> (exn + unit) \<times> Connection" where
  "read_loop to_read c =
     (if to_read > 0 then
        (case socket c of
           None \<Rightarrow> (Inl (AttributeError ''recv''), c)
         | Some k \<Rightarrow>
             (case socket_recv k to_read of
                (data, k') \<Rightarrow>
                  if data = [] then (Inl (AttributeError ''error''), c\<lparr>socket := Some k'\<rparr>)
                  else read_loop (to_read - int (length data))
                         (c\<lparr>socket := Some k', buffer := buffer c @ data\<rparr>)))
      else (Inr (), c))"
  by pat_completeness auto
termination
  by (relation "measure (\<lambda>(to_read, c). nat to_read)") auto

definition Connection_read :: "Connection \<Rightarrow> int \<Rightarrow> (exn + bytes) \<times> Connection" where
  "Connection_read c sz =
     (case read_loop (sz - int (length (buffer c))) c of
        (Inl e, c') \<Rightarrow> (Inl e, c')
      | (Inr u, c') \<Rightarrow>
          (Inr (slice_to (buffer c') sz), c'\<lparr>buffer := slice_from (buffer c') sz\<rparr>))"

text \<open>
  \<open>flush\<close> catches every exception of the non-blocking \<open>recv\<close> and logs it, also the
  \<open>AttributeError\<close> of \<open>self._socket.recv\<close> when there is no socket.
\<close>

definition Connection_flush :: "Connection \<Rightarrow> Connection" where
  "Connection_flush c =
     (case socket c of
        None \<Rightarrow> log_add (Error (str_exn (AttributeError ''recv''))) c
      | Some k \<Rightarrow>
          (case socket_recv_nowait k 1024 of
             (Inl e, k') \<Rightarrow> log_add (Error (str_exn e)) (c\<lparr>socket := Some k'\<rparr>)
           | (Inr data, k') \<Rightarrow> log_add (Warning ''flushed input (%r)'') (c\<lparr>socket := Some k'\<rparr>)))"

section \<open>SpheroRaw\<close>

record SpheroRaw =
  conn :: Connection
  seq :: BoundCounter

definition connect_retries :: int where
  "connect_retries = 10"

definition connect ::
    "(nat \<Rightarrow> exn + socket) \<Rightarrow> 'a SpheroRaw_scheme \<Rightarrow> (exn + bool) \<times> 'a SpheroRaw_scheme" where
  "connect net s =
     (case Connection_connect net (conn s) connect_retries of (r, c) \<Rightarrow> (r, s\<lparr>conn := c\<rparr>))"

definition disconnect :: "'a SpheroRaw_scheme \<Rightarrow> (exn + unit) \<times> 'a SpheroRaw_scheme" where
  "disconnect s = (case Connection_disconnect (conn s) of (r, c) \<Rightarrow> (r, s\<lparr>conn := c\<rparr>))"

text \<open>
  \<open>send_msg(did, cid, data=None, answer=False, reset=True, seq=None)\<close>. The arguments
  of \<open>self._conn.send\<close> are evaluated before the call, so a \<open>ValueError\<close> of \<open>bytes\<close>
  comes before the check of the socket.
\<close>

definition send_msg ::
    "'a SpheroRaw_scheme \<Rightarrow> int \<Rightarrow> int \<Rightarrow> bytes option \<Rightarrow> bool \<Rightarrow> bool \<Rightarrow> int option
     \<Rightarrow> (exn + unit) \<times> 'a SpheroRaw_scheme" where
  "send_msg s did cid data answer reset seq_arg =
     (let sop1 = 0xff;
          sop2 = 0xfc;
          sop2 = (if reset then sop2 OR 0x02 else sop2);
          sop2 = (if answer then sop2 OR 0x01 else sop2);
          (r, s1) = (if answer \<and> seq_arg = None
                     then (case BoundCounter_next (seq s) of
                             (r, c) \<Rightarrow> (map_sum id Some r, s\<lparr>seq := c\<rparr>))
                     else (Inr seq_arg, s))
      in case r of
           Inl e \<Rightarrow> (Inl e, s1)
         | Inr seq1 \<Rightarrow>
             (let seq2 = (case seq1 of None \<Rightarrow> 0x00 | Some v \<Rightarrow> v);
                  data = (case data of None \<Rightarrow> [] | Some d \<Rightarrow> d);
                  dlen = int (length data) + 1;
                  chk = gen_checksum ([did, cid, seq2, dlen] @ data)
              in case bytes_ctor [sop1, sop2, did, cid, seq2, dlen] of
                   Inl e \<Rightarrow> (Inl e, s1)
                 | Inr hdr \<Rightarrow>
                     (case bytes_ctor [chk] of
                        Inl e \<Rightarrow> (Inl e, s1)
                      | Inr trailer \<Rightarrow>
                          (case Connection_send (conn s1) (hdr @ data @ trailer) of
                             (Inl e, c) \<Rightarrow> (Inl e, s1\<lparr>conn := c\<rparr>)
                           | (Inr n, c) \<Rightarrow> (Inr (), s1\<lparr>conn := c\<rparr>)))))"

text \<open>
  \<open>recv_msg(make=None)\<close> returns \<open>None\<close> after a disconnect, or the tuple
  \<open>(sop2, b3, b4, b5, chk, content, body[-1])\<close>. The content is the raw bytes, or what
  \<open>make\<close> (here \<open>mk\<close>) built from them.
\<close>

datatype content = Raw bytes | Made "int list"

type_synonym response = "int \<times> int \<times> int \<times> int \<times> int \<times> content \<times> int"

definition invalid_sop :: "int \<Rightarrow> int \<Rightarrow> exn" where
  "invalid_sop sop1 sop2 =
     ResponseError (''Invalid SOP: 0x'' @ fmt_02x sop1 @ '', 0x'' @ fmt_02x sop2)"

definition invalid_body_length :: "int \<Rightarrow> exn" where
  "invalid_body_length dlen = ResponseError (''Invalid body length: '' @ fmt_d dlen)"

definition invalid_checksum :: exn where
  "invalid_checksum = ResponseError ''Invalid checksum''"

definition recv_msg ::
    "'a SpheroRaw_scheme \<Rightarrow> (bytes \<Rightarrow> exn + content) option
     \<Rightarrow> (exn + response option) \<times> 'a SpheroRaw_scheme" where
  "recv_msg s mk =
     (case Connection_read (conn s) 5 of
        (Inl e, c) \<Rightarrow> (Inl e, s\<lparr>conn := c\<rparr>)
      | (Inr data, c) \<Rightarrow>
          if data = [] then
            (case Connection_disconnect (log_add (Warning ''Disconnected'') c) of
               (Inl e, c') \<Rightarrow> (Inl e, s\<lparr>conn := c'\<rparr>)
             | (Inr u, c') \<Rightarrow> (Inr None, s\<lparr>conn := c'\<rparr>))
          else
            (case data of
               [sop1, sop2, b3, b4, b5] \<Rightarrow>
                 if sop1 \<noteq> 0xff \<or> (sop2 AND 0xfe) \<noteq> 0xfe then
                   (Inl (invalid_sop sop1 sop2), s\<lparr>conn := c\<rparr>)
                 else
                   (let dlen = b5;
                        dlen = (if sop2 = 0xfe then dlen OR push_bit 8 b4 else dlen)
                    in if dlen < 1 then (Inl (invalid_body_length dlen), s\<lparr>conn := c\<rparr>)
                       else
                         (case Connection_read c dlen of
                            (Inl e, c') \<Rightarrow> (Inl e, s\<lparr>conn := c'\<rparr>)
                          | (Inr body, c') \<Rightarrow>
                              if body = [] then
                                (case Connection_disconnect
                                        (log_add (Warning ''Disconnected (reading body)'') c') of
                                   (Inl e, c'') \<Rightarrow> (Inl e, s\<lparr>conn := c''\<rparr>)
                                 | (Inr u, c'') \<Rightarrow> (Inr None, s\<lparr>conn := c''\<rparr>))
                              else
                                (let content = slice_to body (- 1);
                                     chk = gen_checksum ([b3, b4, b5] @ slice_to body (- 1))
                                 in if chk = last body then
                                      (case mk of
                                         None \<Rightarrow>
                                           (Inr (Some (sop2, b3, b4, b5, chk, Raw content, last body)),
                                            s\<lparr>conn := c'\<rparr>)
                                       | Some f \<Rightarrow>
                                           (case f content of
                                              Inl e \<Rightarrow> (Inl e, s\<lparr>conn := c'\<rparr>)
                                            | Inr v \<Rightarrow>
                                                (Inr (Some (sop2, b3, b4, b5, chk, v, last body)),
                                                 s\<lparr>conn := c'\<rparr>)))
                                    else
                                      (Inl invalid_checksum,
                                       s\<lparr>conn := log_add (Warning ''Message checksum incorrect: %r'') c'\<rparr>))))
             | _ \<Rightarrow> (Inl (ValueError ''unpack: expected 5''), s\<lparr>conn := c\<rparr>)))"

definition send_ping :: "'a SpheroRaw_scheme \<Rightarrow> (exn + response option) \<times> 'a SpheroRaw_scheme" where
  "send_ping s =
     (case send_msg s DID_CORE CMD_PING None True True None of
        (Inl e, s') \<Rightarrow> (Inl e, s')
      | (Inr u, s') \<Rightarrow> recv_msg s' None)"

definition send_set_rgb ::
    "'a SpheroRaw_scheme \<Rightarrow> int \<Rightarrow> int \<Rightarrow> int \<Rightarrow> bool \<Rightarrow> (exn + unit) \<times> 'a SpheroRaw_scheme" where
  "send_set_rgb s r g b save =
     (case bytes_ctor [r, g, b, if save then 0x01 else 0x00] of
        Inl e \<Rightarrow> (Inl e, s)
      | Inr data \<Rightarrow> send_msg s DID_SPHERO CMD_SET_RGB (Some data) False True None)"

text \<open>
  \<open>struct.pack('!BHB', speed, heading, state)\<close>: one byte, a big-endian 16-bit number,
  one byte; \<open>struct.error\<close> on an argument out of the range of its field.
\<close>

definition struct_pack_BHB :: "int \<Rightarrow> int \<Rightarrow> int \<Rightarrow> exn + bytes" where
  "struct_pack_BHB b1 h b2 =
     (if 0 \<le> b1 \<and> b1 \<le> 255 \<and> 0 \<le> h \<and> h \<le> 65535 \<and> 0 \<le> b2 \<and> b2 \<le> 255
      then Inr [b1, h div 256, h mod 256, b2]
      else Inl (StructError ''argument out of range''))"

text \<open>
  A heading is an integer wherever the callers pass one; the class \<open>Sphero\<close> also keeps
  a tuple in the attribute that \<open>off\<close> passes on. \<open>heading % 360\<close> raises \<open>TypeError\<close>
  on a tuple, before \<open>struct.pack\<close> is called.
\<close>

datatype pyval = PyInt int | PyTuple "int list"

definition send_roll ::
    "'a SpheroRaw_scheme \<Rightarrow> int \<Rightarrow> pyval \<Rightarrow> int \<Rightarrow> (exn + unit) \<times> 'a SpheroRaw_scheme" where
  "send_roll s speed heading state =
     (case heading of
        PyTuple t \<Rightarrow> (Inl (TypeError ''unsupported operand type(s) for %''), s)
      | PyInt h \<Rightarrow>
          (case struct_pack_BHB speed (h mod 360) state of
             Inl e \<Rightarrow> (Inl e, s)
           | Inr data \<Rightarrow> send_msg s DID_SPHERO CMD_ROLL (Some data) False True None))"

section \<open>Sphero\<close>

record Sphero = SpheroRaw +
  last_heading :: pyval

definition Sphero_init :: "string \<Rightarrow> int \<Rightarrow> Sphero" where
  "Sphero_init addr p =
     \<lparr>conn = Connection_init addr p, seq = BoundCounter_init, last_heading = PyTuple [0, 0, 0]\<rparr>"

definition roll :: "Sphero \<Rightarrow> int \<Rightarrow> pyval \<Rightarrow> int \<Rightarrow> (exn + unit) \<times> Sphero" where
  "roll s speed heading state = send_roll (s\<lparr>last_heading := heading\<rparr>) speed heading state"

definition off :: "Sphero \<Rightarrow> (exn + unit) \<times> Sphero" where
  "off s = roll s 0 (last_heading s) 0"

definition stop :: "Sphero \<Rightarrow> (exn + unit) \<times> Sphero" where
  "stop s = roll s 0 (PyInt 0) 0"

section \<open>Session initialisation\<close>

text \<open>
  The body of \<open>except ResponseError as e\<close> in \<open>init_sphero\<close>: \<open>log.error(e)\<close>, then
  \<open>s._conn.flush()\<close>.
\<close>

definition except_ResponseError :: "exn \<Rightarrow> Sphero \<Rightarrow> Sphero" where
  "except_ResponseError e s = s\<lparr>conn := Connection_flush (log_add (Error (str_exn e)) (conn s))\<rparr>"

text \<open>
  The \<open>while retries > 0\<close> loop of \<open>init_sphero\<close>, with the local \<open>ping_clean\<close>. Only
  \<open>ResponseError\<close> is caught; any other exception leaves the loop and the function.
\<close>

function init_sphero_loop :: "int \<Rightarrow> bool \<Rightarrow> Sphero \<Rightarrow> (exn + bool) \<times> Sphero" where
  "init_sphero_loop retries ping_clean s =
     (if retries > 0 then
        (case send_ping s of
           (Inr r, s') \<Rightarrow>
             init_sphero_loop (if retries - 1 > 1 then 1 else retries - 1) True s'
         | (Inl e, s') \<Rightarrow>
             (case e of
                ResponseError m \<Rightarrow>
                  init_sphero_loop (retries - 1) ping_clean (except_ResponseError e s')
              | _ \<Rightarrow> (Inl e, s')))
      else (Inr ping_clean, s))"
  by pat_completeness auto
termination
  by (relation "measure (\<lambda>(retries, ping_clean, s). nat retries)") auto

text \<open>
  \<open>init_sphero(addr, sphero_class=Sphero)\<close>, with the port left at its default 1. The
  function returns the session \<open>s\<close>: the state that comes with \<open>Inr ()\<close>.
\<close>

definition init_sphero :: "(nat \<Rightarrow> exn + socket) \<Rightarrow> string \<Rightarrow> (exn + unit) \<times> Sphero" where
  "init_sphero net addr =
     (case connect net (Sphero_init addr 1) of
        (Inl e, s) \<Rightarrow> (Inl e, s)
      | (Inr connected, s) \<Rightarrow>
          if \<not> connected then (Inl (RuntimeError ''Could not establish connection''), s)
          else
            (case init_sphero_loop 5 False s of
               (Inl e, s') \<Rightarrow> (Inl e, s')
             | (Inr ping_clean, s') \<Rightarrow>
                 (Inr (),
                  s'\<lparr>conn := log_add (if \<not> ping_clean
                                        then Error ''Failed to clean the receive channel''
                                        else Debug ''Receive channel clean'') (conn s')\<rparr>)))"

section \<open>Observations and test transports\<close>

text \<open>What has gone out on the socket of a session, and how often it was drained.\<close>

definition wire :: "'a SpheroRaw_scheme \<Rightarrow> bytes list" where
  "wire s = (case socket (conn s) of None \<Rightarrow> [] | Some k \<Rightarrow> sent k)"

definition drained :: "'a SpheroRaw_scheme \<Rightarrow> nat" where
  "drained s = (case socket (conn s) of None \<Rightarrow> 0 | Some k \<Rightarrow> drains k)"

text \<open>
  A peer that delivers the given chunks to the blocking reads and then closes, with
  nothing pending for a non-blocking read; and the session \<open>connect\<close> builds on it.
\<close>

definition peer :: "bytes list \<Rightarrow> socket" where
  "peer chunks = \<lparr>sent = [], rx = chunks, nowait = [], drains = 0\<rparr>"

definition network :: "socket \<Rightarrow> nat \<Rightarrow> exn + socket" where
  "network k i = Inr k"

definition session_on :: "socket \<Rightarrow> Sphero" where
  "session_on k = snd (connect (network k) (Sphero_init ''sphero'' 1))"

text \<open>Both at once, for a connection: \<open>None\<close> when it has no socket.\<close>

definition io :: "Connection \<Rightarrow> (bytes list \<times> nat) option" where
  "io c = map_option (\<lambda>k. (sent k, drains k)) (socket c)"

text \<open>
  Replies of a simulated device to a ping with sequence number \<open>sq\<close>: a well-formed
  acknowledgment with an empty content, and the same with a wrong checksum byte.
\<close>

definition ping_reply :: "int \<Rightarrow> bytes" where
  "ping_reply sq = [0xFF, 0xFF, 0x00, sq, 0x01, gen_checksum [0x00, sq, 0x01]]"

definition corrupt_reply :: "int \<Rightarrow> bytes" where
  "corrupt_reply sq = [0xFF, 0xFF, 0x00, sq, 0x01, (gen_checksum [0x00, sq, 0x01] + 1) mod 256]"

declare read_loop.simps [simp del]
declare init_sphero_loop.simps [simp del]

section \<open>Auxiliary facts\<close>

subsection \<open>Arithmetic and slices\<close>

lemma not_mod_256: "(NOT (k::int)) mod 256 = 255 - k mod 256"
proof -
  have r: "0 \<le> k mod 256" "k mod 256 < 256" by simp_all
  have "- k - 1 = (255 - k mod 256) + 256 * (- (k div 256) - 1)"
    using div_mult_mod_eq [of k 256] by (simp add: algebra_simps)
  then have "(- k - 1) mod 256 = ((255 - k mod 256) + 256 * (- (k div 256) - 1)) mod 256"
    by simp
  also have "\<dots> = (255 - k mod 256) mod 256"
    by (simp only: mod_mult_self2)
  also have "\<dots> = 255 - k mod 256"
    using r by (simp only: mod_pos_pos_trivial)
  finally show ?thesis by (simp add: not_int_def)
qed

lemma slice_to_nonneg: "0 \<le> n \<Longrightarrow> slice_to xs n = take (nat n) xs"
  by (simp add: slice_to_def)

lemma slice_to_minus_1: "slice_to xs (- 1) = butlast xs"
proof -
  have "nat (int (length xs) - 1) = length xs - 1" by simp
  then show ?thesis by (simp add: slice_to_def butlast_conv_take)
qed

lemma and_fe_table: "\<forall>x \<in> set [0..255]. ((x AND 0xfe) = 0xfe) = (x = 0xfe \<or> x = 0xff)"
  by code_simp

lemma and_fe_byte:
  assumes "0 \<le> x" and "x < 256"
  shows "((x AND 0xfe) = 0xfe) = (x = 0xfe \<or> x = (0xff :: int))"
proof -
  from assms have "x \<in> set [0..255]" by simp
  with and_fe_table show ?thesis by blast
qed

subsection \<open>The three messages of \<open>ResponseError\<close>\<close>

lemma response_errors_distinct:
  "invalid_checksum \<noteq> invalid_sop x y"
  "invalid_checksum \<noteq> invalid_body_length z"
  "invalid_sop x y \<noteq> invalid_body_length z"
  "invalid_body_length z \<noteq> invalid_sop x y"
  by (simp_all add: invalid_checksum_def invalid_sop_def invalid_body_length_def)

subsection \<open>The read loop\<close>

text \<open>When the loop ends normally the buffer holds at least the bytes asked for.\<close>

lemma read_loop_grows:
  "read_loop t c = (Inr u, c') \<Longrightarrow> int (length (buffer c)) + t \<le> int (length (buffer c'))"
proof (induction t c rule: read_loop.induct)
  case (1 to_read c)
  show ?case
  proof (cases "to_read > 0")
    case False
    with "1.prems" show ?thesis by (simp add: read_loop.simps)
  next
    case True
    from "1.prems" True obtain k where k: "socket c = Some k"
      by (cases "socket c") (auto simp: read_loop.simps)
    obtain data k' where r: "socket_recv k to_read = (data, k')"
      by (cases "socket_recv k to_read")
    from "1.prems" True k r have ne: "data \<noteq> []"
      by (auto simp: read_loop.simps)
    from "1.prems" True k r ne
    have "read_loop (to_read - int (length data))
            (c\<lparr>socket := Some k', buffer := buffer c @ data\<rparr>) = (Inr u, c')"
      by (simp add: read_loop.simps)
    from "1.IH" [OF True k r [symmetric] ne this]
    show ?thesis by simp
  qed
qed

text \<open>The loop raises nothing but the two \<open>AttributeError\<close>s.\<close>

lemma read_loop_error:
  "read_loop t c = (Inl e, c') \<Longrightarrow> e = AttributeError ''recv'' \<or> e = AttributeError ''error''"
proof (induction t c rule: read_loop.induct)
  case (1 to_read c)
  show ?case
  proof (cases "to_read > 0")
    case False
    with "1.prems" show ?thesis by (simp add: read_loop.simps)
  next
    case True
    show ?thesis
    proof (cases "socket c")
      case None
      with "1.prems" True show ?thesis by (simp add: read_loop.simps)
    next
      case (Some k)
      obtain data k' where r: "socket_recv k to_read = (data, k')"
        by (cases "socket_recv k to_read")
      show ?thesis
      proof (cases "data = []")
        case True
        with "1.prems" \<open>to_read > 0\<close> Some r show ?thesis by (simp add: read_loop.simps)
      next
        case False
        from "1.prems" \<open>to_read > 0\<close> Some r False
        have "read_loop (to_read - int (length data))
                (c\<lparr>socket := Some k', buffer := buffer c @ data\<rparr>) = (Inl e, c')"
          by (simp add: read_loop.simps)
        from "1.IH" [OF \<open>to_read > 0\<close> Some r [symmetric] False this]
        show ?thesis .
      qed
    qed
  qed
qed

text \<open>
  A peer that delivers the non-empty chunks \<open>chunks\<close>, fewer bytes than asked for, and
  then closes: the loop raises, with every chunk appended to the buffer.
\<close>

lemma read_loop_closed:
  assumes "\<forall>ch \<in> set chunks. ch \<noteq> []" and "rest = [] \<or> hd rest = []"
  shows "socket c = Some k \<Longrightarrow> rx k = chunks @ rest \<Longrightarrow> int (length (concat chunks)) < t
         \<Longrightarrow> \<exists>c'. read_loop t c = (Inl (AttributeError ''error''), c')
                  \<and> buffer c' = buffer c @ concat chunks"
  using assms(1)
proof (induction chunks arbitrary: c k t)
  case Nil
  then have t: "t > 0" by simp
  from Nil assms(2) have "fst (socket_recv k t) = []"
    by (cases rest) (auto simp: socket_recv_def)
  then obtain k' where "socket_recv k t = ([], k')"
    by (cases "socket_recv k t") simp
  with Nil t show ?case by (simp add: read_loop.simps)
next
  case (Cons ch chs)
  then have ne: "ch \<noteq> []" and t: "t > 0" and len: "int (length ch) < t"
    by auto
  let ?k' = "k\<lparr>rx := chs @ rest\<rparr>"
  from Cons.prems len have r: "socket_recv k t = (ch, ?k')"
    by (simp add: socket_recv_def)
  let ?c' = "c\<lparr>socket := Some ?k', buffer := buffer c @ ch\<rparr>"
  have "\<exists>c'. read_loop (t - int (length ch)) ?c' = (Inl (AttributeError ''error''), c')
             \<and> buffer c' = buffer ?c' @ concat chs"
    by (rule Cons.IH [of ?c' ?k']) (use Cons.prems in auto)
  then show ?case
    using Cons.prems(1) t r ne by (simp add: read_loop.simps [of t c])
qed

lemma Connection_read_length:
  assumes "Connection_read c n = (Inr d, c')" and "0 \<le> n"
  shows "length d = nat n"
proof -
  from assms(1) obtain u c1 where l: "read_loop (n - int (length (buffer c))) c = (Inr u, c1)"
    and d: "d = slice_to (buffer c1) n"
    by (auto simp: Connection_read_def split: prod.splits sum.splits)
  from read_loop_grows [OF l] have "n \<le> int (length (buffer c1))" by simp
  with assms(2) d show ?thesis by (simp add: slice_to_nonneg)
qed

lemma Connection_read_error:
  assumes "Connection_read c n = (Inl e, c')"
  shows "e = AttributeError ''recv'' \<or> e = AttributeError ''error''"
proof -
  from assms have "read_loop (n - int (length (buffer c))) c = (Inl e, c')"
    by (auto simp: Connection_read_def split: prod.splits sum.splits)
  then show ?thesis by (rule read_loop_error)
qed

text \<open>
  \<open>recv_msg\<close> never returns \<open>None\<close>: a read that returns gives at least one byte, so
  the two branches that log a disconnect and return \<open>None\<close> are dead.
\<close>

lemma recv_msg_never_None:
  assumes "recv_msg s mk = (Inr v, s')"
  shows "v \<noteq> None"
proof -
  obtain r1 c1 where rd1: "Connection_read (conn s) 5 = (r1, c1)"
    by (cases "Connection_read (conn s) 5")
  show ?thesis
  proof (cases r1)
    case (Inl e)
    with assms rd1 show ?thesis by (auto simp: recv_msg_def)
  next
    case (Inr data)
    from Connection_read_length [OF rd1 [unfolded Inr]] have "length data = 5" by simp
    then obtain sop1 sop2 b3 b4 b5 where data: "data = [sop1, sop2, b3, b4, b5]"
      by (auto simp: length_Suc_conv eval_nat_numeral)
    define dlen where "dlen = (if sop2 = 0xfe then b5 OR push_bit 8 b4 else b5)"
    show ?thesis
    proof (cases "sop1 \<noteq> 0xff \<or> (sop2 AND 0xfe) \<noteq> 0xfe \<or> dlen < 1")
      case True
      with assms rd1 Inr data show ?thesis
        by (auto simp: recv_msg_def Let_def dlen_def split: if_splits)
    next
      case False
      obtain r2 c2 where rd2: "Connection_read c1 dlen = (r2, c2)"
        by (cases "Connection_read c1 dlen")
      show ?thesis
      proof (cases r2)
        case (Inl e)
        with assms rd1 \<open>r1 = Inr data\<close> data False rd2 show ?thesis
          by (auto simp: recv_msg_def Let_def dlen_def)
      next
        case (Inr body)
        from Connection_read_length [OF rd2 [unfolded Inr]] False have "body \<noteq> []" by auto
        with assms rd1 \<open>r1 = Inr data\<close> data False rd2 Inr show ?thesis
          by (auto simp: recv_msg_def Let_def dlen_def split: option.splits sum.splits if_splits)
      qed
    qed
  qed
qed

subsection \<open>What goes out on the socket\<close>

lemma io_wire: "io (conn s) = Some (w, d) \<Longrightarrow> wire s = w \<and> drained s = d"
  by (auto simp: io_def wire_def drained_def)

lemma io_log_add [simp]: "io (log_add e c) = io c"
  by (simp add: io_def log_add_def)

lemma socket_recv_keeps:
  "socket_recv k n = (d, k') \<Longrightarrow> sent k' = sent k \<and> drains k' = drains k"
  by (auto simp: socket_recv_def split: list.splits)

text \<open>Reading sends nothing and drains nothing, and keeps the socket.\<close>

lemma read_loop_io:
  "io c \<noteq> None \<Longrightarrow> read_loop t c = (r, c') \<Longrightarrow> io c' = io c"
proof (induction t c rule: read_loop.induct)
  case (1 to_read c)
  show ?case
  proof (cases "to_read > 0")
    case False
    with "1.prems" show ?thesis by (auto simp: read_loop.simps)
  next
    case True
    from "1.prems"(1) obtain k where k: "socket c = Some k"
      by (auto simp: io_def)
    obtain data k' where rc: "socket_recv k to_read = (data, k')"
      by (cases "socket_recv k to_read")
    from socket_recv_keeps [OF rc] k
    have same: "io (c\<lparr>socket := Some k'\<rparr>) = io c"
      by (simp add: io_def)
    show ?thesis
    proof (cases "data = []")
      case True
      with "1.prems" \<open>to_read > 0\<close> k rc same show ?thesis
        by (auto simp: read_loop.simps [of to_read])
    next
      case False
      let ?c = "c\<lparr>socket := Some k', buffer := buffer c @ data\<rparr>"
      from same have io: "io ?c = io c" by (simp add: io_def)
      from "1.prems" \<open>to_read > 0\<close> k rc False
      have "read_loop (to_read - int (length data)) ?c = (r, c')"
        by (simp add: read_loop.simps [of to_read])
      from "1.IH" [OF \<open>to_read > 0\<close> k rc [symmetric] False _ this] io "1.prems"(1)
      show ?thesis by simp
    qed
  qed
qed

lemma Connection_read_io:
  assumes "io c \<noteq> None" and "Connection_read c n = (r, c')"
  shows "io c' = io c"
proof -
  obtain r1 c1 where l: "read_loop (n - int (length (buffer c))) c = (r1, c1)"
    by (cases "read_loop (n - int (length (buffer c))) c")
  from read_loop_io [OF assms(1) l] have "io c1 = io c" .
  with assms(2) l show ?thesis
    by (cases r1) (auto simp: Connection_read_def io_def)
qed

text \<open>
  So does \<open>recv_msg\<close>: a read that returns gives as many bytes as were asked for, at
  least one, and the two branches that disconnect are never taken.
\<close>

lemma recv_msg_io:
  assumes "io (conn s) \<noteq> None" and "recv_msg s mk = (r, s')"
  shows "io (conn s') = io (conn s)"
proof -
  obtain r1 c1 where rd1: "Connection_read (conn s) 5 = (r1, c1)"
    by (cases "Connection_read (conn s) 5")
  from Connection_read_io [OF assms(1) rd1] have io1: "io c1 = io (conn s)" .
  show ?thesis
  proof (cases r1)
    case (Inl e)
    with assms(2) rd1 io1 show ?thesis by (auto simp: recv_msg_def)
  next
    case (Inr data)
    from Connection_read_length [OF rd1 [unfolded Inr]] have "length data = 5" by simp
    then obtain sop1 sop2 b3 b4 b5 where data: "data = [sop1, sop2, b3, b4, b5]"
      by (auto simp: length_Suc_conv eval_nat_numeral)
    define dlen where "dlen = (if sop2 = 0xfe then b5 OR push_bit 8 b4 else b5)"
    show ?thesis
    proof (cases "sop1 \<noteq> 0xff \<or> (sop2 AND 0xfe) \<noteq> 0xfe \<or> dlen < 1")
      case True
      with assms(2) rd1 Inr data io1 show ?thesis
        by (auto simp: recv_msg_def Let_def dlen_def split: if_splits)
    next
      case False
      obtain r2 c2 where rd2: "Connection_read c1 dlen = (r2, c2)"
        by (cases "Connection_read c1 dlen")
      from assms(1) io1 have "io c1 \<noteq> None" by simp
      from Connection_read_io [OF this rd2] io1 have io2: "io c2 = io (conn s)" by simp
      show ?thesis
      proof (cases r2)
        case (Inl e)
        with assms(2) rd1 \<open>r1 = Inr data\<close> data False rd2 io2 show ?thesis
          by (auto simp: recv_msg_def Let_def dlen_def)
      next
        case (Inr body)
        from Connection_read_length [OF rd2 [unfolded Inr]] False have "body \<noteq> []" by auto
        with assms(2) rd1 \<open>r1 = Inr data\<close> data False rd2 Inr io2 show ?thesis
          by (auto simp: recv_msg_def Let_def dlen_def split: option.splits sum.splits if_splits)
      qed
    qed
  qed
qed

text \<open>\<open>send_msg\<close> sends one frame when it returns, and never raises \<open>ResponseError\<close>.\<close>

lemma send_msg_io:
  assumes "send_msg s did cid data answer reset seq_arg = (Inr (), s')"
  shows "\<exists>w d sop2 sq chk. io (conn s) = Some (w, d)
           \<and> io (conn s') = Some (w @ [[0xff, sop2, did, cid, sq,
                 int (length (case data of None \<Rightarrow> [] | Some d \<Rightarrow> d)) + 1]
                 @ (case data of None \<Rightarrow> [] | Some d \<Rightarrow> d) @ [chk]], d)"
  using assms
  by (auto simp: send_msg_def Let_def bytes_ctor_def Connection_send_def socket_send_def
      io_def BoundCounter_next_def
      split: if_splits sum.splits option.splits prod.splits)

lemma send_msg_error:
  assumes "send_msg s did cid data answer reset seq_arg = (Inl e, s')"
  shows "e \<noteq> ResponseError m"
  using assms
  by (auto simp: send_msg_def Let_def bytes_ctor_def Connection_send_def socket_send_def
      BoundCounter_next_def
      split: if_splits sum.splits option.splits prod.splits)

text \<open>
  A ping that returns, or that raises \<open>ResponseError\<close>, has sent its frame: the error
  comes from \<open>recv_msg\<close>, after the send.
\<close>

lemma send_ping_io:
  assumes "send_ping s = (r, s')" and "(\<exists>v. r = Inr v) \<or> (\<exists>m. r = Inl (ResponseError m))"
  shows "\<exists>w d sop2 sq chk. io (conn s) = Some (w, d)
           \<and> io (conn s') = Some (w @ [[0xff, sop2, DID_CORE, CMD_PING, sq, 1, chk]], d)"
proof -
  obtain r1 s1 where sm: "send_msg s DID_CORE CMD_PING None True True None = (r1, s1)"
    by (cases "send_msg s DID_CORE CMD_PING None True True None")
  show ?thesis
  proof (cases r1)
    case (Inl e)
    with sm assms(1) have "r = Inl e" by (simp add: send_ping_def)
    moreover from send_msg_error [OF sm [unfolded Inl]] have "\<And>m. e \<noteq> ResponseError m" .
    ultimately show ?thesis using assms(2) by auto
  next
    case (Inr u)
    with sm have sm': "send_msg s DID_CORE CMD_PING None True True None = (Inr (), s1)"
      by simp
    from send_msg_io [OF sm'] obtain w d sop2 sq chk where
      a: "io (conn s) = Some (w, d)"
      and b: "io (conn s1) = Some (w @ [[0xff, sop2, DID_CORE, CMD_PING, sq, 1, chk]], d)"
      by auto
    from sm' assms(1) have "recv_msg s1 None = (r, s')" by (simp add: send_ping_def)
    from recv_msg_io [OF _ this] b have "io (conn s') = io (conn s1)" by simp
    with a b show ?thesis by auto
  qed
qed

lemma Connection_flush_io:
  "io c = Some (w, d) \<Longrightarrow> io (Connection_flush c) = Some (w, Suc d)"
  by (auto simp: Connection_flush_def io_def socket_recv_nowait_def log_add_def
      split: list.splits sum.splits)

lemma except_ResponseError_io:
  "io (conn s) = Some (w, d) \<Longrightarrow> io (conn (except_ResponseError e s)) = Some (w, Suc d)"
  by (simp add: except_ResponseError_def Connection_flush_io)

subsection \<open>The loop of \<open>init_sphero\<close>\<close>

text \<open>One turn of the loop, for each outcome of the ping.\<close>

lemma loop_step_ok:
  "0 < n \<Longrightarrow> send_ping s = (Inr v, s') \<Longrightarrow>
   init_sphero_loop n pc s = init_sphero_loop (if n - 1 > 1 then 1 else n - 1) True s'"
  by (simp add: init_sphero_loop.simps [of n])

lemma loop_step_response_error:
  "0 < n \<Longrightarrow> send_ping s = (Inl (ResponseError m), s') \<Longrightarrow>
   init_sphero_loop n pc s = init_sphero_loop (n - 1) pc (except_ResponseError (ResponseError m) s')"
  by (simp add: init_sphero_loop.simps [of n])

lemma loop_done: "init_sphero_loop 0 pc s = (Inr pc, s)"
  by (simp add: init_sphero_loop.simps)

text \<open>Whatever the loop raises, it is not a \<open>ResponseError\<close>.\<close>

lemma init_sphero_loop_no_response_error:
  "init_sphero_loop n pc s = (r, s') \<Longrightarrow> r \<noteq> Inl (ResponseError m)"
proof (induction n pc s rule: init_sphero_loop.induct)
  case (1 retries ping_clean s)
  show ?case
  proof (cases "retries > 0")
    case False
    with "1.prems" show ?thesis by (auto simp: init_sphero_loop.simps)
  next
    case True
    obtain x t where sp: "send_ping s = (x, t)" by (cases "send_ping s")
    show ?thesis
    proof (cases x)
      case (Inr v)
      from "1.prems" True sp Inr
      have "init_sphero_loop (if retries - 1 > 1 then 1 else retries - 1) True t = (r, s')"
        by (simp add: init_sphero_loop.simps [of retries])
      from "1.IH"(2) [OF True sp [symmetric] Inr this] show ?thesis .
    next
      case (Inl e)
      show ?thesis
      proof (cases "\<exists>m'. e = ResponseError m'")
        case True
        then obtain m' where e: "e = ResponseError m'" by blast
        from "1.prems" \<open>retries > 0\<close> sp Inl e
        have "init_sphero_loop (retries - 1) ping_clean (except_ResponseError e t) = (r, s')"
          by (simp add: init_sphero_loop.simps [of retries])
        from "1.IH"(1) [OF \<open>retries > 0\<close> sp [symmetric] Inl e this] show ?thesis .
      next
        case False
        with "1.prems" \<open>retries > 0\<close> sp Inl have "r = Inl e"
          by (cases e) (simp_all add: init_sphero_loop.simps [of retries])
        with False show ?thesis by auto
      qed
    qed
  qed
qed

lemma wire_log_add [simp]: "wire (s\<lparr>conn := log_add e (conn s)\<rparr>) = wire s"
  by (simp add: wire_def log_add_def)

lemma drained_log_add [simp]: "drained (s\<lparr>conn := log_add e (conn s)\<rparr>) = drained s"
  by (simp add: drained_def log_add_def)

text \<open>\<open>init_sphero\<close> raises no \<open>ResponseError\<close>.\<close>

lemma init_sphero_no_response_error:
  "fst (init_sphero net addr) \<noteq> Inl (ResponseError m)"
proof -
  obtain r s where c: "connect net (Sphero_init addr 1) = (r, s)"
    by (cases "connect net (Sphero_init addr 1)")
  show ?thesis
  proof (cases r)
    case (Inl e)
    with c have "e \<noteq> ResponseError m"
      by (auto simp: connect_def Connection_connect_def Let_def split: prod.splits if_splits)
    with c Inl show ?thesis by (simp add: init_sphero_def)
  next
    case (Inr connected)
    show ?thesis
    proof (cases connected)
      case False
      with c Inr show ?thesis by (simp add: init_sphero_def)
    next
      case True
      obtain r' s' where l: "init_sphero_loop 5 False s = (r', s')"
        by (cases "init_sphero_loop 5 False s")
      from init_sphero_loop_no_response_error [OF l] have "r' \<noteq> Inl (ResponseError m)" .
      with c Inr True l show ?thesis
        by (cases r') (simp_all add: init_sphero_def)
    qed
  qed
qed

section \<open>Checksum\<close>

text \<open>
  C6. For every sequence of integers, so for every sequence of bytes in
  particular, \<open>gen_checksum\<close> is 255 minus the sum modulo 256, and the result is an
  unsigned 8-bit number. The function is total and has no state.
\<close>

theorem gen_checksum_value:
  "gen_checksum bs = 255 - (sum_list bs mod 256)
   \<and> 0 \<le> gen_checksum bs \<and> gen_checksum bs \<le> 255"
proof -
  have eq: "gen_checksum bs = 255 - (sum_list bs mod 256)"
    by (simp add: gen_checksum_def not_mod_256)
  have "0 \<le> sum_list bs mod 256" and "sum_list bs mod 256 < 256"
    by simp_all
  with eq show ?thesis by linarith
qed

section \<open>Outgoing frames\<close>

text \<open>
  C1, as the code has it. On a connected session \<open>send_set_rgb(255, 0, 0, save=False)\<close>
  sends exactly one frame, \<open>FF FE 02 20 00 05 FF 00 00 00\<close> followed by the checksum of
  \<open>02 20 00 05 FF 00 00 00\<close>. The second byte is \<open>FE\<close>: \<open>send_msg\<close> is called with its
  default \<open>reset=True\<close>, which sets bit 1 of \<open>FC\<close>.
\<close>

theorem set_rgb_red_frame:
  assumes "socket (conn s) = Some k"
  shows "send_set_rgb s 255 0 0 False =
           (Inr (), s\<lparr>conn := (conn s)\<lparr>socket := Some (k\<lparr>sent := sent k @
              [[0xFF, 0xFE, 0x02, 0x20, 0x00, 0x05, 0xFF, 0x00, 0x00, 0x00,
                gen_checksum [0x02, 0x20, 0x00, 0x05, 0xFF, 0x00, 0x00, 0x00]]]\<rparr>)\<rparr>\<rparr>)"
  using assms
  by (simp add: send_set_rgb_def send_msg_def bytes_ctor_def Connection_send_def
      socket_send_def gen_checksum_def DID_SPHERO_def CMD_SET_RGB_def)

text \<open>On a freshly connected session the frame is the only one on the wire.\<close>

theorem set_rgb_red_frame_witness:
  "socket (conn (session_on (peer []))) = Some (peer [])
   \<and> wire (snd (send_set_rgb (session_on (peer [])) 255 0 0 False))
       = [[0xFF, 0xFE, 0x02, 0x20, 0x00, 0x05, 0xFF, 0x00, 0x00, 0x00, 0xD9]]"
proof -
  have h: "socket (conn (session_on (peer []))) = Some (peer [])"
    by code_simp
  show ?thesis
    using h set_rgb_red_frame [OF h]
    by (simp add: wire_def peer_def gen_checksum_def)
qed

text \<open>The bytes sent are not \<open>FF FC 02 20 00 05 FF 00 00 00\<close> and the checksum.\<close>

theorem set_rgb_red_frame_counterexample:
  "wire (snd (send_set_rgb (session_on (peer [])) 255 0 0 False))
     \<noteq> [[0xFF, 0xFC, 0x02, 0x20, 0x00, 0x05, 0xFF, 0x00, 0x00, 0x00,
          gen_checksum [0x02, 0x20, 0x00, 0x05, 0xFF, 0x00, 0x00, 0x00]]]"
  by code_simp

text \<open>
  C7. Whenever \<open>send_msg\<close> sends a frame, with or without a payload and whatever the
  flags \<open>answer\<close> and \<open>reset\<close> and the sequence number, the frame is the six header
  bytes, the payload and the checksum, and its data-length byte, at index 5, is the
  length of the payload plus one.
\<close>

theorem send_msg_data_length:
  assumes "send_msg s did cid data answer reset seq_arg = (Inr (), s')"
  shows "\<exists>frame sop2 sq chk.
           wire s' = wire s @ [frame]
           \<and> frame ! 5 = int (length (case data of None \<Rightarrow> [] | Some d \<Rightarrow> d)) + 1
           \<and> frame =
               [0xff, sop2, did, cid, sq, int (length (case data of None \<Rightarrow> [] | Some d \<Rightarrow> d)) + 1]
               @ (case data of None \<Rightarrow> [] | Some d \<Rightarrow> d) @ [chk]"
  using assms
  by (auto simp: send_msg_def Let_def bytes_ctor_def Connection_send_def socket_send_def
      wire_def BoundCounter_next_def
      split: if_splits sum.splits option.splits prod.splits)

text \<open>
  A ping without a payload and without acknowledgment has data length 1; a payload of
  four bytes with acknowledgment has data length 5.
\<close>

theorem send_msg_data_length_witness:
  "(\<exists>frame. wire (snd (send_msg (session_on (peer [])) DID_CORE CMD_PING None False True None))
               = wire (session_on (peer [])) @ [frame]
             \<and> frame ! 5 = 1)
   \<and> (\<exists>frame. wire (snd (send_msg (session_on (peer [])) DID_SPHERO CMD_ROLL
                               (Some [9, 0, 7, 1]) True True None))
               = wire (session_on (peer [])) @ [frame]
             \<and> frame ! 5 = 5)"
proof -
  let ?s = "session_on (peer [])"
  have a: "send_msg ?s DID_CORE CMD_PING None False True None
           = (Inr (), snd (send_msg ?s DID_CORE CMD_PING None False True None))"
    by code_simp
  have b: "send_msg ?s DID_SPHERO CMD_ROLL (Some [9, 0, 7, 1]) True True None
           = (Inr (), snd (send_msg ?s DID_SPHERO CMD_ROLL (Some [9, 0, 7, 1]) True True None))"
    by code_simp
  from send_msg_data_length [OF a] have "\<exists>frame.
      wire (snd (send_msg ?s DID_CORE CMD_PING None False True None)) = wire ?s @ [frame]
      \<and> frame ! 5 = 1"
    by auto
  moreover from send_msg_data_length [OF b] have "\<exists>frame.
      wire (snd (send_msg ?s DID_SPHERO CMD_ROLL (Some [9, 0, 7, 1]) True True None))
        = wire ?s @ [frame]
      \<and> frame ! 5 = 5"
    by auto
  ultimately show ?thesis by blast
qed

section \<open>Roll, off and stop\<close>

text \<open>
  C8. On a connected session, \<open>roll(100, 180)\<close> followed by \<open>off()\<close> sends two roll
  frames (device 02, command 30, payload speed, heading high byte, heading low byte,
  state): the second has speed 0 and heading \<open>00 B4\<close>, that is 180, not 0. \<open>stop()\<close>
  sends a roll frame with speed 0 and heading 0, on every connected session.
\<close>

theorem roll_off_stop_frames:
  assumes "socket (conn s) = Some k"
  shows "(\<exists>s1 s2. roll s 100 (PyInt 180) 1 = (Inr (), s1) \<and> off s1 = (Inr (), s2)
            \<and> wire s2 = wire s @ [[0xFF, 0xFE, 0x02, 0x30, 0x00, 0x05, 100, 0, 180, 1, 175],
                                  [0xFF, 0xFE, 0x02, 0x30, 0x00, 0x05, 0, 0, 180, 0, 20]])
         \<and> (\<exists>s3. stop s = (Inr (), s3)
            \<and> wire s3 = wire s @ [[0xFF, 0xFE, 0x02, 0x30, 0x00, 0x05, 0, 0, 0, 0, 200]])"
  using assms
  by (simp add: roll_def off_def stop_def send_roll_def struct_pack_BHB_def send_msg_def
      bytes_ctor_def Connection_send_def socket_send_def gen_checksum_def wire_def
      DID_SPHERO_def CMD_ROLL_def)

theorem roll_off_stop_frames_witness:
  "socket (conn (session_on (peer []))) = Some (peer [])
   \<and> (\<exists>s1 s2. roll (session_on (peer [])) 100 (PyInt 180) 1 = (Inr (), s1)
            \<and> off s1 = (Inr (), s2)
            \<and> wire s2 = [[0xFF, 0xFE, 0x02, 0x30, 0x00, 0x05, 100, 0, 180, 1, 175],
                         [0xFF, 0xFE, 0x02, 0x30, 0x00, 0x05, 0, 0, 180, 0, 20]])
   \<and> (\<exists>s3. stop (session_on (peer [])) = (Inr (), s3)
            \<and> wire s3 = [[0xFF, 0xFE, 0x02, 0x30, 0x00, 0x05, 0, 0, 0, 0, 200]])"
proof -
  have h: "socket (conn (session_on (peer []))) = Some (peer [])"
    by code_simp
  have w: "wire (session_on (peer [])) = []"
    by code_simp
  show ?thesis
    using h roll_off_stop_frames [OF h] by (simp add: w)
qed

text \<open>
  C10. A session whose \<open>last_heading\<close> is still the tuple that \<open>__init__\<close> stored, no
  \<open>roll\<close> having run, raises \<open>TypeError\<close> on \<open>off()\<close>: \<open>heading % 360\<close> fails on the
  tuple before the payload is packed. The session is unchanged, so nothing is sent.
\<close>

theorem off_before_roll:
  assumes "last_heading s = last_heading (Sphero_init addr p)"
  shows "off s = (Inl (TypeError ''unsupported operand type(s) for %''), s)
         \<and> last_heading s = PyTuple [0, 0, 0]"
  using assms by (simp add: off_def roll_def send_roll_def Sphero_init_def)

theorem off_before_roll_witness:
  "last_heading (session_on (peer [])) = last_heading (Sphero_init ''sphero'' 1)
   \<and> off (session_on (peer []))
       = (Inl (TypeError ''unsupported operand type(s) for %''), session_on (peer []))
   \<and> wire (snd (off (session_on (peer [])))) = []"
proof -
  have h: "last_heading (session_on (peer [])) = last_heading (Sphero_init ''sphero'' 1)"
    by code_simp
  have w: "wire (session_on (peer [])) = []"
    by code_simp
  show ?thesis
    using h off_before_roll [OF h] by (simp add: w)
qed

section \<open>Reading\<close>

text \<open>
  C4, where the code departs from it. When the socket delivers non-empty chunks that,
  with the bytes already buffered, make fewer than \<open>n\<close> bytes, and then closes,
  \<open>read(n)\<close> returns no bytes, and the bytes delivered are all in the buffer of the
  connection, after those that were there. What \<open>read\<close> raises, though, is the
  \<open>AttributeError\<close> of the call \<open>self.error('Connection closed')\<close>, a method the class
  does not define, and not a condition that says the connection is closed.
\<close>

theorem read_closed_early:
  assumes "socket c = Some k" and "rx k = chunks @ rest"
    and "\<forall>ch \<in> set chunks. ch \<noteq> []" and "rest = [] \<or> hd rest = []"
    and "int (length (buffer c)) + int (length (concat chunks)) < n"
  shows "\<exists>c'. Connection_read c n = (Inl (AttributeError ''error''), c')
              \<and> buffer c' = buffer c @ concat chunks"
proof -
  from assms(5) have "int (length (concat chunks)) < n - int (length (buffer c))"
    by simp
  from read_loop_closed [OF assms(3) assms(4) assms(1) assms(2) this]
  show ?thesis by (auto simp: Connection_read_def)
qed

text \<open>
  Three bytes arrive in two chunks where five were asked for. \<open>recv_msg\<close> passes the
  exception of \<open>read\<close> on: its branch for a disconnect is not taken.
\<close>

theorem read_closed_early_witness:
  "socket (conn (session_on (peer [[1, 2], [3]]))) = Some (peer [[1, 2], [3]])
   \<and> rx (peer [[1, 2], [3]]) = [[1, 2], [3]] @ []
   \<and> [1, 2 :: int] \<noteq> [] \<and> [3 :: int] \<noteq> []
   \<and> int (length (buffer (conn (session_on (peer [[1, 2], [3]])))))
       + int (length (concat [[1, 2], [3 :: int]])) < 5
   \<and> (\<exists>c'. Connection_read (conn (session_on (peer [[1, 2], [3]]))) 5
              = (Inl (AttributeError ''error''), c')
         \<and> buffer c' = [1, 2, 3])
   \<and> fst (recv_msg (session_on (peer [[1, 2], [3]])) None) = Inl (AttributeError ''error'')"
proof -
  let ?c = "conn (session_on (peer [[1, 2], [3]]))"
  have a: "socket ?c = Some (peer [[1, 2], [3]])" by code_simp
  have b: "rx (peer [[1, 2], [3]]) = [[1, 2], [3]] @ []" by code_simp
  have c: "\<forall>ch \<in> set [[1, 2], [3 :: int]]. ch \<noteq> []" by simp
  have d: "([] :: bytes list) = [] \<or> hd ([] :: bytes list) = []" by simp
  have bf: "buffer ?c = []" by code_simp
  have e: "int (length (buffer ?c)) + int (length (concat [[1, 2], [3 :: int]])) < 5"
    by (simp add: bf)
  have f: "fst (recv_msg (session_on (peer [[1, 2], [3]])) None) = Inl (AttributeError ''error'')"
    by code_simp
  have "\<exists>c'. Connection_read ?c 5 = (Inl (AttributeError ''error''), c')
          \<and> buffer c' = [1, 2, 3]"
    using read_closed_early [OF a b c d e] by (simp add: bf)
  with a b e f show ?thesis by simp
qed

section \<open>Incoming frames\<close>

text \<open>
  C5. When the header has passed the checks of the start bytes and of the length, and
  the last byte of the body differs from the checksum of header bytes 3 to 5 and the
  content, \<open>recv_msg\<close> raises \<open>ResponseError('Invalid checksum')\<close>. The exception has
  the class of the other two, and its message differs from every message of the
  start-byte check and of the length check.
\<close>

theorem recv_msg_checksum_mismatch:
  assumes hdr: "Connection_read (conn s) 5 = (Inr [sop1, sop2, b3, b4, b5], c)"
    and sop: "sop1 = 0xff" "(sop2 AND 0xfe) = 0xfe"
    and dlen: "dlen = (if sop2 = 0xfe then b5 OR push_bit 8 b4 else b5)" "1 \<le> dlen"
    and body: "Connection_read c dlen = (Inr body, c')"
    and chk: "gen_checksum ([b3, b4, b5] @ butlast body) \<noteq> last body"
  shows "recv_msg s mk =
           (Inl invalid_checksum,
            s\<lparr>conn := log_add (Warning ''Message checksum incorrect: %r'') c'\<rparr>)
         \<and> invalid_checksum = ResponseError ''Invalid checksum''
         \<and> invalid_checksum \<noteq> invalid_sop x y
         \<and> invalid_checksum \<noteq> invalid_body_length z"
proof -
  from Connection_read_length [OF body] dlen(2) have "length body = nat dlen" by simp
  with dlen(2) have ne: "body \<noteq> []" by auto
  have "recv_msg s mk =
          (Inl invalid_checksum,
           s\<lparr>conn := log_add (Warning ''Message checksum incorrect: %r'') c'\<rparr>)"
    using hdr sop dlen body chk ne
    by (simp add: recv_msg_def Let_def slice_to_minus_1)
  then show ?thesis by (simp add: response_errors_distinct) (simp add: invalid_checksum_def)
qed

text \<open>A ping reply \<open>FF FF 00 01 01\<close> whose checksum byte is 00 where FD is due.\<close>

theorem recv_msg_checksum_mismatch_witness:
  "fst (Connection_read (conn (session_on (peer [[0xFF, 0xFF, 0x00, 0x01, 0x01, 0x00]]))) 5)
     = Inr [0xFF, 0xFF, 0x00, 0x01, 0x01]
   \<and> ((0xFF :: int) AND 0xfe) = 0xfe
   \<and> gen_checksum ([0x00, 0x01, 0x01] @ butlast [0x00]) \<noteq> last [0x00]
   \<and> fst (recv_msg (session_on (peer [[0xFF, 0xFF, 0x00, 0x01, 0x01, 0x00]])) None)
       = Inl (ResponseError ''Invalid checksum'')"
proof -
  let ?s = "session_on (peer [[0xFF, 0xFF, 0x00, 0x01, 0x01, 0x00]])"
  let ?c = "snd (Connection_read (conn ?s) 5)"
  let ?c' = "snd (Connection_read ?c 1)"
  have hdr: "Connection_read (conn ?s) 5 = (Inr [0xFF, 0xFF, 0x00, 0x01, 0x01], ?c)"
    by code_simp
  have sop1: "(0xFF :: int) = 0xff" by simp
  have sop2: "((0xFF :: int) AND 0xfe) = 0xfe" by simp
  have dlen: "(1 :: int) = (if (0xFF :: int) = 0xfe then 0x01 OR push_bit 8 0x01 else 0x01)"
    by simp
  have pos: "(1 :: int) \<le> 1" by simp
  have body: "Connection_read ?c 1 = (Inr [0x00], ?c')"
    by code_simp
  have chk: "gen_checksum ([0x00, 0x01, 0x01] @ butlast [0x00]) \<noteq> last [0x00]"
    by (simp add: gen_checksum_def)
  have h: "fst (Connection_read (conn ?s) 5) = Inr [0xFF, 0xFF, 0x00, 0x01, 0x01]"
    by code_simp
  have r: "fst (recv_msg ?s None) = Inl (ResponseError ''Invalid checksum'')"
    using recv_msg_checksum_mismatch [OF hdr sop1 sop2 dlen pos body chk, of None]
    by simp
  from h sop2 chk r show ?thesis by blast
qed

text \<open>
  C2, as the code has it. Once the five header bytes are read, \<open>recv_msg\<close> raises the
  \<open>ResponseError\<close> of the start bytes if and only if the first is not \<open>FF\<close> or the second,
  masked with \<open>FE\<close>, is not \<open>FE\<close>: the seven high-order bits of the second byte must all be
  set and its lowest bit is free. For a byte that means the second start byte is \<open>FE\<close> or
  \<open>FF\<close>. The decoder \<open>make\<close>, when one is given, is taken not to raise \<open>ResponseError\<close>
  itself.
\<close>

theorem recv_msg_framing:
  assumes hdr: "Connection_read (conn s) 5 = (Inr [sop1, sop2, b3, b4, b5], c)"
    and mk: "\<forall>f d m. mk = Some f \<longrightarrow> f d \<noteq> Inl (ResponseError m)"
    and byte: "0 \<le> sop2" "sop2 < 256"
  shows "((fst (recv_msg s mk) = Inl (invalid_sop sop1 sop2))
          = (sop1 \<noteq> 0xff \<or> (sop2 AND 0xfe) \<noteq> 0xfe))
         \<and> (((sop2 AND 0xfe) \<noteq> 0xfe) = (sop2 \<noteq> 0xfe \<and> sop2 \<noteq> 0xff))"
proof -
  have "(fst (recv_msg s mk) = Inl (invalid_sop sop1 sop2))
          = (sop1 \<noteq> 0xff \<or> (sop2 AND 0xfe) \<noteq> 0xfe)"
  proof (cases "sop1 \<noteq> 0xff \<or> (sop2 AND 0xfe) \<noteq> 0xfe")
    case True
    with hdr show ?thesis by (simp add: recv_msg_def)
  next
    case False
    define dlen where "dlen = (if sop2 = 0xfe then b5 OR push_bit 8 b4 else b5)"
    have "fst (recv_msg s mk) \<noteq> Inl (invalid_sop sop1 sop2)"
    proof (cases "dlen < 1")
      case True
      with hdr False show ?thesis
        by (simp add: recv_msg_def Let_def dlen_def response_errors_distinct)
    next
      case big: False
      obtain r c' where rd: "Connection_read c dlen = (r, c')"
        by (cases "Connection_read c dlen")
      show ?thesis
      proof (cases r)
        case (Inl e)
        from Connection_read_error [OF rd [unfolded Inl]]
        have "e \<noteq> invalid_sop sop1 sop2" by (auto simp: invalid_sop_def)
        with hdr False big rd Inl show ?thesis
          by (simp add: recv_msg_def Let_def dlen_def)
      next
        case (Inr body)
        from Connection_read_length [OF rd [unfolded Inr]] big have "body \<noteq> []" by auto
        with hdr False big rd Inr mk show ?thesis
          by (auto simp: recv_msg_def Let_def dlen_def response_errors_distinct
              invalid_sop_def invalid_checksum_def
              split: option.splits sum.splits)
      qed
    qed
    with False show ?thesis by simp
  qed
  moreover from and_fe_byte [OF byte]
  have "((sop2 AND 0xfe) \<noteq> 0xfe) = (sop2 \<noteq> 0xfe \<and> sop2 \<noteq> 0xff)"
    by simp
  ultimately show ?thesis by simp
qed

text \<open>A reply that starts \<open>FF FE\<close> passes the check of the start bytes.\<close>

theorem recv_msg_framing_witness:
  "fst (Connection_read (conn (session_on (peer [[0xFF, 0xFE, 0x00, 0x00, 0x01, 0xFE]]))) 5)
     = Inr [0xFF, 0xFE, 0x00, 0x00, 0x01]
   \<and> (0 :: int) \<le> 0xFE \<and> (0xFE :: int) < 256
   \<and> fst (recv_msg (session_on (peer [[0xFF, 0xFE, 0x00, 0x00, 0x01, 0xFE]])) None)
       \<noteq> Inl (invalid_sop 0xFF 0xFE)"
proof -
  let ?s = "session_on (peer [[0xFF, 0xFE, 0x00, 0x00, 0x01, 0xFE]])"
  have hdr: "Connection_read (conn ?s) 5
             = (Inr [0xFF, 0xFE, 0x00, 0x00, 0x01], snd (Connection_read (conn ?s) 5))"
    by code_simp
  have mk: "\<forall>f d m. (None :: (bytes \<Rightarrow> exn + content) option) = Some f
              \<longrightarrow> f d \<noteq> Inl (ResponseError m)"
    by simp
  have lo: "(0 :: int) \<le> 0xFE" and hi: "(0xFE :: int) < 256" by simp_all
  have h: "fst (Connection_read (conn ?s) 5) = Inr [0xFF, 0xFE, 0x00, 0x00, 0x01]"
    by code_simp
  have r: "fst (recv_msg ?s None) \<noteq> Inl (invalid_sop 0xFF 0xFE)"
    using recv_msg_framing [OF hdr mk lo hi] by simp
  from h lo hi r show ?thesis by blast
qed

text \<open>
  The second start byte \<open>FE\<close> has bit 0 clear, and the frame is decoded; the second
  start byte \<open>03\<close> has its two low-order bits set, and the frame is refused.
\<close>

theorem recv_msg_framing_counterexample:
  "(0xFE :: int) AND 0x03 \<noteq> 0x03
   \<and> fst (recv_msg (session_on (peer [[0xFF, 0xFE, 0x00, 0x00, 0x01, 0xFE]])) None)
       = Inr (Some (0xFE, 0x00, 0x00, 0x01, 0xFE, Raw [], 0xFE))
   \<and> (0x03 :: int) AND 0x03 = 0x03
   \<and> fst (recv_msg (session_on (peer [[0xFF, 0x03, 0x00, 0x00, 0x01, 0xFE]])) None)
       = Inl (ResponseError ''Invalid SOP: 0xff, 0x03'')"
  by code_simp

section \<open>Channel cleaning\<close>

text \<open>
  C3, as the code has it. After a successful connect, when the first ping fails on its
  checksum and the second ping succeeds, the loop sets \<open>retries\<close> to 1 and pings a
  third time. When that ping succeeds too, \<open>init_sphero\<close> returns the session with the
  channel logged as clean, after exactly three pings sent and exactly one flush.
\<close>

theorem channel_cleaning_corrupt_then_valid:
  assumes con: "connect net (Sphero_init addr 1) = (Inr True, s0)"
    and p1: "send_ping s0 = (Inl invalid_checksum, t1)"
    and p2: "send_ping (except_ResponseError invalid_checksum t1) = (Inr v2, s2)"
    and p3: "send_ping s2 = (Inr v3, s3)"
  shows "init_sphero net addr
           = (Inr (), s3\<lparr>conn := log_add (Debug ''Receive channel clean'') (conn s3)\<rparr>)
         \<and> (\<exists>f1 f2 f3. wire s3 = wire s0 @ [f1, f2, f3])
         \<and> drained s3 = drained s0 + 1"
proof -
  let ?s1 = "except_ResponseError invalid_checksum t1"
  have p1': "send_ping s0 = (Inl (ResponseError ''Invalid checksum''), t1)"
    using p1 by (simp add: invalid_checksum_def)
  have "init_sphero_loop 5 False s0 = init_sphero_loop 4 False ?s1"
    using loop_step_response_error [OF _ p1', of 5 False] by (simp add: invalid_checksum_def)
  also have "\<dots> = init_sphero_loop 1 True s2"
    using loop_step_ok [OF _ p2, of 4 False] by simp
  also have "\<dots> = init_sphero_loop 0 True s3"
    using loop_step_ok [OF _ p3, of 1 True] by simp
  also have "\<dots> = (Inr True, s3)"
    by (rule loop_done)
  finally have loop: "init_sphero_loop 5 False s0 = (Inr True, s3)" .
  have result: "init_sphero net addr
           = (Inr (), s3\<lparr>conn := log_add (Debug ''Receive channel clean'') (conn s3)\<rparr>)"
    using con loop by (simp add: init_sphero_def)
  from send_ping_io [OF p1'] obtain w d a1 b1 c1 where
    i0: "io (conn s0) = Some (w, d)"
    and i1: "io (conn t1) = Some (w @ [[0xff, a1, DID_CORE, CMD_PING, b1, 1, c1]], d)"
    by auto
  from except_ResponseError_io [OF i1]
  have i1': "io (conn ?s1) = Some (w @ [[0xff, a1, DID_CORE, CMD_PING, b1, 1, c1]], Suc d)" .
  from send_ping_io [OF p2] i1' obtain f2 where
    i2: "io (conn s2) = Some (w @ [[0xff, a1, DID_CORE, CMD_PING, b1, 1, c1]] @ [f2], Suc d)"
    by auto
  from send_ping_io [OF p3] i2 obtain f3 where
    i3: "io (conn s3) = Some (w @ [[0xff, a1, DID_CORE, CMD_PING, b1, 1, c1]] @ [f2] @ [f3], Suc d)"
    by auto
  from io_wire [OF i0] io_wire [OF i3]
  have "(\<exists>f1 f2 f3. wire s3 = wire s0 @ [f1, f2, f3]) \<and> drained s3 = drained s0 + 1"
    by auto
  with result show ?thesis by simp
qed

text \<open>
  A device that answers the first ping with a wrong checksum byte and the next two
  correctly.
\<close>

theorem channel_cleaning_corrupt_then_valid_witness:
  "fst (connect (network (peer [corrupt_reply 1, ping_reply 2, ping_reply 3]))
          (Sphero_init ''sphero'' 1)) = Inr True
   \<and> fst (send_ping (session_on (peer [corrupt_reply 1, ping_reply 2, ping_reply 3])))
       = Inl invalid_checksum
   \<and> fst (init_sphero (network (peer [corrupt_reply 1, ping_reply 2, ping_reply 3])) ''sphero'')
       = Inr ()
   \<and> length (wire (snd (init_sphero
         (network (peer [corrupt_reply 1, ping_reply 2, ping_reply 3])) ''sphero''))) = 3
   \<and> drained (snd (init_sphero
         (network (peer [corrupt_reply 1, ping_reply 2, ping_reply 3])) ''sphero'')) = 1"
proof -
  let ?k = "peer [corrupt_reply 1, ping_reply 2, ping_reply 3]"
  let ?s0 = "session_on ?k"
  let ?t1 = "snd (send_ping ?s0)"
  let ?s2 = "snd (send_ping (except_ResponseError invalid_checksum ?t1))"
  let ?s3 = "snd (send_ping ?s2)"
  have c: "fst (connect (network ?k) (Sphero_init ''sphero'' 1)) = Inr True"
    by code_simp
  then have con: "connect (network ?k) (Sphero_init ''sphero'' 1) = (Inr True, ?s0)"
    by (simp add: session_on_def prod_eq_iff)
  have f1: "fst (send_ping ?s0) = Inl invalid_checksum"
    by code_simp
  then have p1: "send_ping ?s0 = (Inl invalid_checksum, ?t1)"
    by (simp add: prod_eq_iff)
  have "fst (send_ping (except_ResponseError invalid_checksum ?t1))
          = Inr (Some (0xFF, 0x00, 0x02, 0x01, 0xFC, Raw [], 0xFC))"
    by code_simp
  then have p2: "send_ping (except_ResponseError invalid_checksum ?t1)
          = (Inr (Some (0xFF, 0x00, 0x02, 0x01, 0xFC, Raw [], 0xFC)), ?s2)"
    by (simp add: prod_eq_iff)
  have "fst (send_ping ?s2) = Inr (Some (0xFF, 0x00, 0x03, 0x01, 0xFB, Raw [], 0xFB))"
    by code_simp
  then have p3: "send_ping ?s2 = (Inr (Some (0xFF, 0x00, 0x03, 0x01, 0xFB, Raw [], 0xFB)), ?s3)"
    by (simp add: prod_eq_iff)
  have w0: "wire ?s0 = []" and d0: "drained ?s0 = 0"
    by code_simp+
  from channel_cleaning_corrupt_then_valid [OF con p1 p2 p3]
  have "fst (init_sphero (network ?k) ''sphero'') = Inr ()
        \<and> length (wire (snd (init_sphero (network ?k) ''sphero''))) = 3
        \<and> drained (snd (init_sphero (network ?k) ''sphero'')) = 1"
    by (auto simp: w0 d0)
  with c f1 show ?thesis by blast
qed

text \<open>
  With the first reply corrupted and the second valid, three ping frames go out, not
  two, whether the third reply is valid (one flush) or corrupted (two flushes).
\<close>

theorem channel_cleaning_counterexample:
  "fst (init_sphero (network (peer [corrupt_reply 1, ping_reply 2, ping_reply 3])) ''sphero'')
     = Inr ()
   \<and> wire (snd (init_sphero
         (network (peer [corrupt_reply 1, ping_reply 2, ping_reply 3])) ''sphero''))
       = [[0xFF, 0xFF, 0x00, 0x01, 0x01, 0x01, 0xFC],
          [0xFF, 0xFF, 0x00, 0x01, 0x02, 0x01, 0xFB],
          [0xFF, 0xFF, 0x00, 0x01, 0x03, 0x01, 0xFA]]
   \<and> drained (snd (init_sphero
         (network (peer [corrupt_reply 1, ping_reply 2, ping_reply 3])) ''sphero'')) = 1
   \<and> log (conn (snd (init_sphero
         (network (peer [corrupt_reply 1, ping_reply 2, ping_reply 3])) ''sphero'')))
       = [Info ''Connected: %r'', Debug ''socket timeout: %r'',
          Warning ''Message checksum incorrect: %r'', Error ''Invalid checksum'',
          Error ''Resource temporarily unavailable'', Debug ''Receive channel clean'']
   \<and> fst (init_sphero (network (peer [corrupt_reply 1, ping_reply 2, corrupt_reply 3])) ''sphero'')
       = Inr ()
   \<and> length (wire (snd (init_sphero
         (network (peer [corrupt_reply 1, ping_reply 2, corrupt_reply 3])) ''sphero''))) = 3
   \<and> drained (snd (init_sphero
         (network (peer [corrupt_reply 1, ping_reply 2, corrupt_reply 3])) ''sphero'')) = 2"
  by code_simp

text \<open>
  C9, as the code has it. After a successful connect, when each of the five pings of
  the budget raises a \<open>ResponseError\<close>, each is caught, logged and followed by a flush,
  and \<open>init_sphero\<close> returns the session with the channel logged as not clean. Whatever
  the transport does, \<open>init_sphero\<close> raises no \<open>ResponseError\<close>.
\<close>

theorem init_sphero_soft_failure:
  assumes con: "connect net (Sphero_init addr 1) = (Inr True, s0)"
    and p1: "send_ping s0 = (Inl (ResponseError m1), t1)"
    and p2: "send_ping (except_ResponseError (ResponseError m1) t1) = (Inl (ResponseError m2), t2)"
    and p3: "send_ping (except_ResponseError (ResponseError m2) t2) = (Inl (ResponseError m3), t3)"
    and p4: "send_ping (except_ResponseError (ResponseError m3) t3) = (Inl (ResponseError m4), t4)"
    and p5: "send_ping (except_ResponseError (ResponseError m4) t4) = (Inl (ResponseError m5), t5)"
    and s5: "s5 = except_ResponseError (ResponseError m5) t5"
  shows "init_sphero net addr
           = (Inr (), s5\<lparr>conn := log_add (Error ''Failed to clean the receive channel'') (conn s5)\<rparr>)
         \<and> (\<forall>net' addr' m. fst (init_sphero net' addr') \<noteq> Inl (ResponseError m))"
proof -
  have "init_sphero_loop 5 False s0
          = init_sphero_loop 4 False (except_ResponseError (ResponseError m1) t1)"
    using loop_step_response_error [OF _ p1, of 5 False] by simp
  also have "\<dots> = init_sphero_loop 3 False (except_ResponseError (ResponseError m2) t2)"
    using loop_step_response_error [OF _ p2, of 4 False] by simp
  also have "\<dots> = init_sphero_loop 2 False (except_ResponseError (ResponseError m3) t3)"
    using loop_step_response_error [OF _ p3, of 3 False] by simp
  also have "\<dots> = init_sphero_loop 1 False (except_ResponseError (ResponseError m4) t4)"
    using loop_step_response_error [OF _ p4, of 2 False] by simp
  also have "\<dots> = init_sphero_loop 0 False s5"
    using loop_step_response_error [OF _ p5, of 1 False] by (simp add: s5)
  also have "\<dots> = (Inr False, s5)"
    by (rule loop_done)
  finally have "init_sphero_loop 5 False s0 = (Inr False, s5)" .
  with con have "init_sphero net addr
           = (Inr (), s5\<lparr>conn := log_add (Error ''Failed to clean the receive channel'') (conn s5)\<rparr>)"
    by (simp add: init_sphero_def)
  with init_sphero_no_response_error show ?thesis by blast
qed

text \<open>
  Five replies, one with wrong start bytes, one with body length 0 and three with a
  wrong checksum byte.
\<close>

theorem init_sphero_soft_failure_witness:
  "fst (connect (network (peer [[0x00, 0x00, 0x00, 0x00, 0x00], [0xFF, 0xFF, 0x00, 0x00, 0x00],
          corrupt_reply 3, corrupt_reply 4, corrupt_reply 5])) (Sphero_init ''sphero'' 1)) = Inr True
   \<and> fst (init_sphero (network (peer [[0x00, 0x00, 0x00, 0x00, 0x00], [0xFF, 0xFF, 0x00, 0x00, 0x00],
          corrupt_reply 3, corrupt_reply 4, corrupt_reply 5])) ''sphero'') = Inr ()
   \<and> last (log (conn (snd (init_sphero (network (peer [[0x00, 0x00, 0x00, 0x00, 0x00],
          [0xFF, 0xFF, 0x00, 0x00, 0x00], corrupt_reply 3, corrupt_reply 4, corrupt_reply 5]))
          ''sphero''))))
       = Error ''Failed to clean the receive channel''"
proof -
  let ?k = "peer [[0x00, 0x00, 0x00, 0x00, 0x00], [0xFF, 0xFF, 0x00, 0x00, 0x00],
                  corrupt_reply 3, corrupt_reply 4, corrupt_reply 5]"
  let ?s0 = "session_on ?k"
  let ?m1 = "''Invalid SOP: 0x00, 0x00''"
  let ?m2 = "''Invalid body length: 0''"
  let ?m = "''Invalid checksum''"
  let ?t1 = "snd (send_ping ?s0)"
  let ?t2 = "snd (send_ping (except_ResponseError (ResponseError ?m1) ?t1))"
  let ?t3 = "snd (send_ping (except_ResponseError (ResponseError ?m2) ?t2))"
  let ?t4 = "snd (send_ping (except_ResponseError (ResponseError ?m) ?t3))"
  let ?t5 = "snd (send_ping (except_ResponseError (ResponseError ?m) ?t4))"
  have c: "fst (connect (network ?k) (Sphero_init ''sphero'' 1)) = Inr True"
    by code_simp
  then have con: "connect (network ?k) (Sphero_init ''sphero'' 1) = (Inr True, ?s0)"
    by (simp add: session_on_def prod_eq_iff)
  have "fst (send_ping ?s0) = Inl (ResponseError ?m1)"
    by code_simp
  then have p1: "send_ping ?s0 = (Inl (ResponseError ?m1), ?t1)"
    by (simp add: prod_eq_iff)
  have "fst (send_ping (except_ResponseError (ResponseError ?m1) ?t1)) = Inl (ResponseError ?m2)"
    by code_simp
  then have p2: "send_ping (except_ResponseError (ResponseError ?m1) ?t1)
                 = (Inl (ResponseError ?m2), ?t2)"
    by (simp add: prod_eq_iff)
  have "fst (send_ping (except_ResponseError (ResponseError ?m2) ?t2)) = Inl (ResponseError ?m)"
    by code_simp
  then have p3: "send_ping (except_ResponseError (ResponseError ?m2) ?t2)
                 = (Inl (ResponseError ?m), ?t3)"
    by (simp add: prod_eq_iff)
  have "fst (send_ping (except_ResponseError (ResponseError ?m) ?t3)) = Inl (ResponseError ?m)"
    by code_simp
  then have p4: "send_ping (except_ResponseError (ResponseError ?m) ?t3)
                 = (Inl (ResponseError ?m), ?t4)"
    by (simp add: prod_eq_iff)
  have "fst (send_ping (except_ResponseError (ResponseError ?m) ?t4)) = Inl (ResponseError ?m)"
    by code_simp
  then have p5: "send_ping (except_ResponseError (ResponseError ?m) ?t4)
                 = (Inl (ResponseError ?m), ?t5)"
    by (simp add: prod_eq_iff)
  from init_sphero_soft_failure [OF con p1 p2 p3 p4 p5 refl]
  have "fst (init_sphero (network ?k) ''sphero'') = Inr ()
        \<and> last (log (conn (snd (init_sphero (network ?k) ''sphero''))))
            = Error ''Failed to clean the receive channel''"
    by (simp add: log_add_def)
  with c show ?thesis by blast
qed

text \<open>
  A peer that closes without a reply: the connect succeeds and \<open>init_sphero\<close> raises
  the exception of the first read.
\<close>

theorem init_sphero_soft_failure_counterexample:
  "fst (connect (network (peer [])) (Sphero_init ''sphero'' 1)) = Inr True
   \<and> fst (init_sphero (network (peer [])) ''sphero'') = Inl (AttributeError ''error'')"
  by code_simp

end
